theory Spec2Isabelle
  imports Complex_Main "HOL-Library.AList"
begin

section \<open>check\_recovCls.py: a shallow embedding\<close>

text \<open>
  The script reads a Flask configuration file, loads the recovered and the input power
  spectra into two dictionaries, reconciles their multipole ranges and plots them.
  The embedding follows the source function by function. What Python does beyond
  returning a value is explicit here: every exception is a value of \<open>py_error\<close>, the
  file system is a record that is passed in (and returned where the code changes it),
  a dictionary is an association list in insertion order (the iteration order of
  \<open>dict.keys()\<close> since Python 3.7), and a text file is its content as one string.
  Strings are byte strings; the white space of \<open>str.rstrip()\<close> and \<open>str.split()\<close>
  is the ASCII white space of Python 3. Floating-point numbers are read as reals:
  the code only compares them, takes minima and maxima, and adds one.
\<close>

subsection \<open>Exceptions\<close>

datatype py_error =
    IOError
  | OSError
  | IndexError
  | UnboundLocalError
  | ValueError
  | TypeError
  | KeyError
  | AssertionError
  | SystemExit

subsection \<open>Python string operations\<close>

definition py_isspace :: "char \<Rightarrow> bool" where
  "py_isspace c \<longleftrightarrow>
     c \<in> set [CHR 0x09, CHR 0x0A, CHR 0x0B, CHR 0x0C, CHR 0x0D,
              CHR 0x1C, CHR 0x1D, CHR 0x1E, CHR 0x1F, CHR '' '']"

text \<open>\<open>s.rstrip()\<close>\<close>

definition py_rstrip :: "string \<Rightarrow> string" where
  "py_rstrip s = rev (dropWhile py_isspace (rev s))"

text \<open>\<open>s.rstrip('/')\<close> and friends\<close>

definition rstrip_char :: "char \<Rightarrow> string \<Rightarrow> string" where
  "rstrip_char d s = rev (dropWhile (\<lambda>c. c = d) (rev s))"

text \<open>\<open>a in s\<close> for two strings: \<open>a\<close> occurs in \<open>s\<close> as a substring.\<close>

fun py_in :: "string \<Rightarrow> string \<Rightarrow> bool" where
  "py_in a [] = (a = [])"
| "py_in a (c # cs) = (take (length a) (c # cs) = a \<or> py_in a cs)"

text \<open>
  \<open>s.split(d)\<close> with an explicit one-character separator: every occurrence of the
  separator splits, so the result is never empty and may hold empty strings.
\<close>

fun split_on :: "char \<Rightarrow> string \<Rightarrow> string list" where
  "split_on d [] = [[]]"
| "split_on d (c # cs) =
     (if c = d then [] # split_on d cs
      else (case split_on d cs of
              [] \<Rightarrow> [[c]]
            | w # ws \<Rightarrow> (c # w) # ws))"

text \<open>\<open>s.split()\<close>: the maximal runs of characters that are not white space.\<close>

function py_split_ws :: "string \<Rightarrow> string list" where
  "py_split_ws [] = []"
| "py_split_ws (c # cs) =
     (if py_isspace c then py_split_ws cs
      else takeWhile (\<lambda>x. \<not> py_isspace x) (c # cs)
             # py_split_ws (dropWhile (\<lambda>x. \<not> py_isspace x) cs))"
  by pat_completeness auto
termination
  by (relation "measure length") (auto simp: length_dropWhile_le less_Suc_eq_le)

text \<open>
  \<open>s.replace(old, "")\<close>: the occurrences of \<open>old\<close> are deleted from left to right,
  without overlap. The counter \<open>k\<close> is the number of characters of the occurrence
  being deleted that are still ahead.
\<close>

fun delete_sub :: "string \<Rightarrow> nat \<Rightarrow> string \<Rightarrow> string" where
  "delete_sub old k [] = []"
| "delete_sub old k (c # cs) =
     (if 0 < k then delete_sub old (k - 1) cs
      else if old \<noteq> [] \<and> take (length old) (c # cs) = old
           then delete_sub old (length old - 1) cs
      else c # delete_sub old 0 cs)"

definition py_delete :: "string \<Rightarrow> string \<Rightarrow> string" where
  "py_delete old s = delete_sub old 0 s"

text \<open>Iterating over an open text file: the lines, each with its line feed.\<close>

fun py_lines :: "string \<Rightarrow> string list" where
  "py_lines [] = []"
| "py_lines (c # cs) =
     (if c = CHR 0x0A then [c] # py_lines cs
      else (case py_lines cs of
              [] \<Rightarrow> [[c]]
            | l # ls \<Rightarrow> (c # l) # ls))"

subsection \<open>posixpath\<close>

text \<open>\<open>os.path.dirname\<close>, \<open>os.path.basename\<close>, \<open>os.path.splitext\<close> and
  \<open>os.path.join\<close> of two components, as \<open>posixpath.py\<close> defines them.\<close>

definition path_head :: "string \<Rightarrow> string" where
  "path_head p = rev (dropWhile (\<lambda>c. c \<noteq> CHR ''/'') (rev p))"

definition dirname :: "string \<Rightarrow> string" where
  "dirname p =
     (let head = path_head p
      in if head \<noteq> [] \<and> head \<noteq> replicate (length head) CHR ''/''
         then rstrip_char CHR ''/'' head else head)"

definition basename :: "string \<Rightarrow> string" where
  "basename p = rev (takeWhile (\<lambda>c. c \<noteq> CHR ''/'') (rev p))"

text \<open>
  \<open>splitext(p)[0]\<close>: the extension starts at the last dot of the last component,
  unless only dots precede that dot in the component.
\<close>

definition splitext_root :: "string \<Rightarrow> string" where
  "splitext_root p =
     (let name = basename p;
          ext = rev (takeWhile (\<lambda>c. c \<noteq> CHR ''.'') (rev name));
          stem = take (length name - length ext - 1) name
      in if CHR ''.'' \<in> set name \<and> filter (\<lambda>c. c \<noteq> CHR ''.'') stem \<noteq> []
         then take (length p - length ext - 1) p else p)"

definition path_join :: "string \<Rightarrow> string \<Rightarrow> string" where
  "path_join a b =
     (if b \<noteq> [] \<and> hd b = CHR ''/'' then b
      else if a = [] \<or> last a = CHR ''/'' then a @ b
      else a @ ''/'' @ b)"

subsection \<open>The file system\<close>

text \<open>
  Paths are looked up as they are written. \<open>dirs\<close> are the existing directories,
  \<open>files\<close> the regular files with their contents, \<open>readonly\<close> the directories in
  which nothing can be created, and \<open>wild\<close> answers \<open>glob.glob\<close> for the patterns
  that contain a wildcard.
\<close>

record filesys =
  dirs :: "string set"
  files :: "string \<rightharpoonup> string"
  readonly :: "string set"
  wild :: "string \<Rightarrow> string list"

definition isdir :: "filesys \<Rightarrow> string \<Rightarrow> bool" where
  "isdir fs p \<longleftrightarrow> p \<in> dirs fs"

definition isfile :: "filesys \<Rightarrow> string \<Rightarrow> bool" where
  "isfile fs p \<longleftrightarrow> files fs p \<noteq> None"

definition lexists :: "filesys \<Rightarrow> string \<Rightarrow> bool" where
  "lexists fs p \<longleftrightarrow> isdir fs p \<or> isfile fs p"

text \<open>The directory an entry is created in; the empty directory name is the
  current directory.\<close>

definition parent_dir :: "string \<Rightarrow> string" where
  "parent_dir p = (let d = dirname p in if d = [] then ''.'' else d)"

definition mkdir :: "filesys \<Rightarrow> string \<Rightarrow> py_error + filesys" where
  "mkdir fs p =
     (if lexists fs p then Inl OSError
      else if \<not> isdir fs (parent_dir p) then Inl OSError
      else if parent_dir p \<in> readonly fs then Inl OSError
      else Inr (fs\<lparr>dirs := insert p (dirs fs)\<rparr>))"

definition has_magic :: "string \<Rightarrow> bool" where
  "has_magic pat \<longleftrightarrow> filter (\<lambda>c. c \<in> set ''*?['') pat \<noteq> []"

definition glob :: "filesys \<Rightarrow> string \<Rightarrow> string list" where
  "glob fs pat =
     (if has_magic pat then wild fs pat
      else if basename pat \<noteq> [] then (if lexists fs pat then [pat] else [])
      else (if isdir fs (dirname pat) then [pat] else []))"

subsection \<open>\<open>search_flask_args\<close>\<close>

text \<open>
  The expression of line 58,
  \<open>line.split(':')[1].rstrip().replace(" ", "").replace("\t", "").split('#')[0]\<close>.
  Indexing the split with 1 raises when the line has no colon.
\<close>

definition extract_arg :: "string \<Rightarrow> py_error + string" where
  "extract_arg line =
     (case split_on CHR '':'' line of
        _ # seg # _ \<Rightarrow>
          Inr (hd (split_on CHR ''#''
                 (py_delete [CHR 0x09] (py_delete '' '' (py_rstrip seg)))))
      | _ \<Rightarrow> Inl IndexError)"

text \<open>
  The loop of lines 55 to 59. It binds \<open>args\<close> at the first line that contains
  \<open>argName\<close> and leaves; \<open>None\<close> is the loop ending with \<open>args\<close> unbound.
\<close>

fun search_loop :: "string list \<Rightarrow> string \<Rightarrow> py_error + string option" where
  "search_loop [] argName = Inr None"
| "search_loop (line # rest) argName =
     (if py_in argName line
      then (case extract_arg line of Inl e \<Rightarrow> Inl e | Inr args \<Rightarrow> Inr (Some args))
      else search_loop rest argName)"

definition search_lines :: "string list \<Rightarrow> string \<Rightarrow> py_error + string option" where
  "search_lines ls argName =
     (case search_loop ls argName of
        Inl e \<Rightarrow> Inl e
      | Inr None \<Rightarrow> Inl UnboundLocalError
      | Inr (Some args) \<Rightarrow>
          (case args of
             [] \<Rightarrow> Inl IndexError
           | c # _ \<Rightarrow> if c = CHR ''0'' then Inr None else Inr (Some args)))"

definition search_flask_args :: "filesys \<Rightarrow> string \<Rightarrow> string \<Rightarrow> py_error + string option" where
  "search_flask_args fs pathFlaskFile argName =
     (case files fs pathFlaskFile of
        None \<Rightarrow> Inl IOError
      | Some content \<Rightarrow> search_lines (py_lines content) argName)"

subsection \<open>\<open>create_output_folder\<close>\<close>

text \<open>
  Lines 26 to 47. The bare \<open>except\<close> catches every failure of the first
  \<open>os.mkdir\<close>; a failure of the second one is not caught. The first component of
  the result is the file system the call leaves behind.
\<close>

definition create_output_folder :: "filesys \<Rightarrow> string \<Rightarrow> py_error + (filesys \<times> string)" where
  "create_output_folder fs config =
     (let pathtoConfig = dirname config;
          rootName = splitext_root (basename config);
          newFolderName = ''/check_RecovCls-'' @ rootName;
          newFolder = path_join pathtoConfig newFolderName
      in if isdir fs newFolder then Inr (fs, newFolder)
         else (case mkdir fs newFolder of
                 Inr fs' \<Rightarrow> Inr (fs', newFolder)
               | Inl _ \<Rightarrow>
                   (let newFolder = ''.'' @ newFolderName
                    in if isdir fs newFolder then Inr (fs, newFolder)
                       else (case mkdir fs newFolder of
                               Inr fs' \<Rightarrow> Inr (fs', newFolder)
                             | Inl e \<Rightarrow> Inl e))))"

subsection \<open>numpy arrays and \<open>np.loadtxt\<close>\<close>

text \<open>
  An array as \<open>np.loadtxt\<close> returns it has zero, one or two dimensions; what a
  dictionary of the script holds is what iterating over such an array yields: a
  scalar or a one-dimensional array.
\<close>

datatype ndarray = A0 real | A1 "real list" | A2 "real list list"

datatype npval = Scalar real | Vec "real list"

text \<open>
  One line of the table: the text before the comment sign, split at white space,
  every field converted. The conversion of a field to a float is \<open>conv\<close>.
\<close>

definition loadtxt_line :: "(string \<Rightarrow> real option) \<Rightarrow> string \<Rightarrow> py_error + real list" where
  "loadtxt_line conv line =
     (case those (map conv (py_split_ws (takeWhile (\<lambda>c. c \<noteq> CHR ''#'') line))) of
        None \<Rightarrow> Inl ValueError
      | Some r \<Rightarrow> Inr r)"

text \<open>Lines without a field are skipped.\<close>

fun loadtxt_rows :: "(string \<Rightarrow> real option) \<Rightarrow> string list \<Rightarrow> py_error + real list list" where
  "loadtxt_rows conv [] = Inr []"
| "loadtxt_rows conv (l # ls) =
     (case loadtxt_line conv l of
        Inl e \<Rightarrow> Inl e
      | Inr r \<Rightarrow>
          (case loadtxt_rows conv ls of
             Inl e \<Rightarrow> Inl e
           | Inr rs \<Rightarrow> Inr (if r = [] then rs else r # rs)))"

text \<open>With the default \<open>ndmin=0\<close> the axes of length one are dropped.\<close>

definition squeeze :: "real list list \<Rightarrow> ndarray" where
  "squeeze rows =
     (case rows of
        [] \<Rightarrow> A1 []
      | [r] \<Rightarrow> (case r of [x] \<Rightarrow> A0 x | _ \<Rightarrow> A1 r)
      | r # _ \<Rightarrow> if length r = 1 then A1 (map hd rows) else A2 rows)"

definition loadtxt :: "(string \<Rightarrow> real option) \<Rightarrow> filesys \<Rightarrow> string \<Rightarrow> py_error + ndarray" where
  "loadtxt conv fs path =
     (case files fs path of
        None \<Rightarrow> Inl IOError
      | Some content \<Rightarrow>
          (case loadtxt_rows conv (py_lines content) of
             Inl e \<Rightarrow> Inl e
           | Inr rows \<Rightarrow>
               if list_all (\<lambda>r. length r = length (hd rows)) rows
               then Inr (squeeze rows) else Inl ValueError))"

text \<open>Iterating over \<open>arr.T\<close>: the columns of a matrix, the elements of a
  vector; a zero-dimensional array cannot be iterated.\<close>

definition iter_T :: "ndarray \<Rightarrow> py_error + npval list" where
  "iter_T arr =
     (case arr of
        A0 x \<Rightarrow> Inl TypeError
      | A1 xs \<Rightarrow> Inr (map Scalar xs)
      | A2 rows \<Rightarrow> Inr (map Vec (transpose rows)))"

text \<open>\<open>ell, cls = np.loadtxt(path, unpack=1)\<close>\<close>

definition loadtxt_unpack ::
  "(string \<Rightarrow> real option) \<Rightarrow> filesys \<Rightarrow> string \<Rightarrow> py_error + (npval \<times> npval)" where
  "loadtxt_unpack conv fs path =
     (case loadtxt conv fs path of
        Inl e \<Rightarrow> Inl e
      | Inr arr \<Rightarrow>
          (case iter_T arr of
             Inl e \<Rightarrow> Inl e
           | Inr [ell, cls] \<Rightarrow> Inr (ell, cls)
           | Inr _ \<Rightarrow> Inl ValueError))"

subsection \<open>Dictionaries\<close>

type_synonym cls_dict = "(string \<times> npval) list"

definition dict_get :: "cls_dict \<Rightarrow> string \<Rightarrow> py_error + npval" where
  "dict_get d k = (case map_of d k of None \<Rightarrow> Inl KeyError | Some v \<Rightarrow> Inr v)"

definition dict_keys :: "cls_dict \<Rightarrow> string list" where
  "dict_keys d = map fst d"

subsection \<open>\<open>get_config_path\<close> and the path rule\<close>

definition get_config_path :: "string \<Rightarrow> string" where
  "get_config_path config = dirname config"

text \<open>Lines 88 to 91, and again lines 125 to 128.\<close>

definition resolve_path :: "string \<Rightarrow> string \<Rightarrow> py_error + string" where
  "resolve_path configDirName p =
     (case p of
        [] \<Rightarrow> Inl IndexError
      | c # _ \<Rightarrow> if c = CHR ''/'' then Inr p else Inr (path_join configDirName p))"

subsection \<open>\<open>get_recov_cls_dict\<close>\<close>

text \<open>Line 100 and 101: the names of the first line.\<close>

definition header_names :: "string \<Rightarrow> py_error + string list" where
  "header_names line =
     (let names = split_on CHR '' '' (py_rstrip (py_delete ''Cl-'' line))
      in if ''#'' \<in> set names then Inr (remove1 ''#'' names) else Inl ValueError)"

text \<open>Lines 93 to 107, from the resolved path on. A file without a first line
  leaves \<open>names\<close> unbound.\<close>

definition load_recov_cls :: "(string \<Rightarrow> real option) \<Rightarrow> filesys \<Rightarrow> string \<Rightarrow> py_error + cls_dict" where
  "load_recov_cls conv fs RecovClsPath =
     (if \<not> isfile fs RecovClsPath then Inl AssertionError
      else (case loadtxt conv fs RecovClsPath of
              Inl e \<Rightarrow> Inl e
            | Inr RecovCls \<Rightarrow>
                (case files fs RecovClsPath of
                   None \<Rightarrow> Inl IOError
                 | Some content \<Rightarrow>
                     (case py_lines content of
                        [] \<Rightarrow> Inl UnboundLocalError
                      | line # _ \<Rightarrow>
                          (case header_names line of
                             Inl e \<Rightarrow> Inl e
                           | Inr names \<Rightarrow>
                               (case iter_T RecovCls of
                                  Inl e \<Rightarrow> Inl e
                                | Inr cols \<Rightarrow>
                                    Inr (fold (\<lambda>(n, i) d. AList.update n i d)
                                           (zip names cols) [])))))))"

definition get_recov_cls_dict :: "(string \<Rightarrow> real option) \<Rightarrow> filesys \<Rightarrow> string \<Rightarrow> py_error + cls_dict" where
  "get_recov_cls_dict conv fs config =
     (let configDirName = get_config_path config
      in case search_flask_args fs config ''RECOVCLS_OUT'' of
           Inl e \<Rightarrow> Inl e
         | Inr None \<Rightarrow> Inl SystemExit
         | Inr (Some recovClsPathFromConfig) \<Rightarrow>
             (case resolve_path configDirName recovClsPathFromConfig of
                Inl e \<Rightarrow> Inl e
              | Inr RecovClsPath \<Rightarrow> load_recov_cls conv fs RecovClsPath))"

subsection \<open>\<open>get_input_cls_dict\<close>\<close>

text \<open>The loop of lines 131 to 139 over the keys of the recovered dictionary.\<close>

fun input_loop ::
  "(string \<Rightarrow> real option) \<Rightarrow> filesys \<Rightarrow> string \<Rightarrow> cls_dict \<Rightarrow> string list \<Rightarrow> py_error + cls_dict" where
  "input_loop conv fs ClsPath InputClsDict [] = Inr InputClsDict"
| "input_loop conv fs ClsPath InputClsDict (k # ks) =
     (case glob fs (ClsPath @ k @ ''.dat'') of
        [] \<Rightarrow> input_loop conv fs ClsPath InputClsDict ks
      | f # _ \<Rightarrow>
          if \<not> isfile fs f then Inl AssertionError
          else (case loadtxt_unpack conv fs f of
                  Inl e \<Rightarrow> Inl e
                | Inr (ell, cls) \<Rightarrow>
                    input_loop conv fs ClsPath
                      (AList.update k cls (AList.update ''l'' ell InputClsDict)) ks))"

definition get_input_cls_dict ::
  "(string \<Rightarrow> real option) \<Rightarrow> filesys \<Rightarrow> string \<Rightarrow> cls_dict \<Rightarrow> py_error + cls_dict" where
  "get_input_cls_dict conv fs config RecovDict =
     (let configDirName = get_config_path config
      in case search_flask_args fs config ''CL_PREFIX'' of
           Inl e \<Rightarrow> Inl e
         | Inr None \<Rightarrow> Inl SystemExit
         | Inr (Some p) \<Rightarrow>
             (case resolve_path configDirName p of
                Inl e \<Rightarrow> Inl e
              | Inr ClsPath \<Rightarrow> input_loop conv fs ClsPath [] (dict_keys RecovDict)))"

subsection \<open>\<open>check_ell_range\<close> and the common grid\<close>

text \<open>\<open>.min()\<close> and \<open>.max()\<close> reduce the array from its first element; on an empty
  array they raise.\<close>

definition np_min :: "npval \<Rightarrow> py_error + real" where
  "np_min a =
     (case a of
        Scalar x \<Rightarrow> Inr x
      | Vec [] \<Rightarrow> Inl ValueError
      | Vec (x # xs) \<Rightarrow> Inr (fold min xs x))"

definition np_max :: "npval \<Rightarrow> py_error + real" where
  "np_max a =
     (case a of
        Scalar x \<Rightarrow> Inr x
      | Vec [] \<Rightarrow> Inl ValueError
      | Vec (x # xs) \<Rightarrow> Inr (fold max xs x))"

text \<open>What a call of \<open>print\<close> is given: strings and numbers.\<close>

datatype pr_item = Str string | Num real

text \<open>Lines 150 to 156. The second component of the result lists the calls of
  \<open>print\<close>, in order.\<close>

definition check_ell_range :: "cls_dict \<Rightarrow> cls_dict \<Rightarrow> py_error + (bool \<times> pr_item list list)" where
  "check_ell_range recovcls inputcls =
     (case dict_get recovcls ''l'' of Inl e \<Rightarrow> Inl e | Inr rl \<Rightarrow>
     (case np_min rl of Inl e \<Rightarrow> Inl e | Inr rmin \<Rightarrow>
     (case dict_get inputcls ''l'' of Inl e \<Rightarrow> Inl e | Inr il \<Rightarrow>
     (case np_min il of Inl e \<Rightarrow> Inl e | Inr imin \<Rightarrow>
     (case np_max rl of Inl e \<Rightarrow> Inl e | Inr rmax \<Rightarrow>
     (case np_max il of Inl e \<Rightarrow> Inl e | Inr imax \<Rightarrow>
        if rmin = imin \<and> rmax = imax then Inr (True, [])
        else Inr (False,
               [[Str ''Different ell ranges.''],
                [Str (CHR 0x0A # ''Recov: ''), Num rmin, Str '' '', Num rmax],
                [Str (CHR 0x0A # ''Input: ''), Num imin, Str '' '', Num imax]])))))))"

text \<open>\<open>np.arange(start, stop)\<close> on floats: \<open>ceil(stop - start)\<close> values from
  \<open>start\<close> in steps of one.\<close>

definition np_arange :: "real \<Rightarrow> real \<Rightarrow> real list" where
  "np_arange start stop = map (\<lambda>i. start + real i) [0 ..< nat \<lceil>stop - start\<rceil>]"

text \<open>Lines 175 to 183 of \<open>plot_recov_vs_input\<close>: the grid \<open>ell_vec\<close>.\<close>

definition plot_ell_vec :: "cls_dict \<Rightarrow> cls_dict \<Rightarrow> py_error + real list" where
  "plot_ell_vec recovcls inputcls =
     (case check_ell_range recovcls inputcls of
        Inl e \<Rightarrow> Inl e
      | Inr (same, _) \<Rightarrow>
         (case dict_get recovcls ''l'' of Inl e \<Rightarrow> Inl e | Inr rl \<Rightarrow>
         (case dict_get inputcls ''l'' of Inl e \<Rightarrow> Inl e | Inr il \<Rightarrow>
         (case np_min rl of Inl e \<Rightarrow> Inl e | Inr rmin \<Rightarrow>
         (case np_min il of Inl e \<Rightarrow> Inl e | Inr imin \<Rightarrow>
         (case np_max rl of Inl e \<Rightarrow> Inl e | Inr rmax \<Rightarrow>
         (case np_max il of Inl e \<Rightarrow> Inl e | Inr imax \<Rightarrow>
            (let (ell_min, ell_max) =
                   (if \<not> same then (max rmin imin, min rmax imax) else (rmin, imax))
             in Inr (np_arange ell_min (ell_max + 1))))))))))"

subsection \<open>The value of a configuration line as the specification words it\<close>

definition py_strip :: "string \<Rightarrow> string" where
  "py_strip s = dropWhile py_isspace (py_rstrip s)"

text \<open>
  The text after the first colon of the line, any comment from \<open>#\<close> on removed, the
  white space around it stripped.
\<close>

definition spec_value :: "string \<Rightarrow> string" where
  "spec_value line =
     py_strip (takeWhile (\<lambda>c. c \<noteq> CHR ''#'') (tl (dropWhile (\<lambda>c. c \<noteq> CHR '':'') line)))"

subsection \<open>Elements and lengths of array values\<close>

text \<open>The elements an array value holds.\<close>

definition np_elems :: "npval \<Rightarrow> real list" where
  "np_elems a = (case a of Scalar x \<Rightarrow> [x] | Vec xs \<Rightarrow> xs)"

text \<open>\<open>len(a)\<close>: a scalar has no length.\<close>

definition np_len :: "npval \<Rightarrow> nat option" where
  "np_len a = (case a of Scalar x \<Rightarrow> None | Vec xs \<Rightarrow> Some (length xs))"

subsection \<open>Example inputs\<close>

text \<open>A file system that holds the configuration file \<open>flask.config\<close> with the
  given content in the current directory, and nothing else.\<close>

definition config_fs :: "string \<Rightarrow> filesys" where
  "config_fs content =
     \<lparr>dirs = {''.''}, files = [''flask.config'' \<mapsto> content], readonly = {},
      wild = (\<lambda>_. [])\<rparr>"

text \<open>A conversion of fields for the examples: an unsigned decimal integer, as
  \<open>float\<close> reads it.\<close>

definition float_of_digits :: "string \<Rightarrow> real option" where
  "float_of_digits s =
     (if s \<noteq> [] \<and> list_all (\<lambda>c. 48 \<le> (of_char c :: nat) \<and> (of_char c :: nat) \<le> 57) s
      then Some (real (fold (\<lambda>c n. 10 * n + (of_char c - 48)) s 0))
      else None)"

text \<open>
  A simulation directory \<open>/home/user/sims\<close> that can be written to, below a root
  directory that cannot. The configuration names an absolute RecovCls path and a
  relative prefix of the input files.
\<close>

definition sim_fs :: filesys where
  "sim_fs =
     \<lparr>dirs = {''/'', ''.'', ''/home'', ''/home/user'', ''/home/user/sims''},
      files = [''/home/user/sims/flask.config'' \<mapsto>
                 ''RECOVCLS_OUT: /data/recov.dat\<newline>CL_PREFIX: in/Cl-\<newline>''],
      readonly = {''/''},
      wild = (\<lambda>_. [])\<rparr>"

text \<open>
  A run directory: the configuration, a RecovCls table with the given content, and
  the input files of the fields \<open>f1f1\<close> (two rows) and \<open>f1f2\<close> (three rows).
\<close>

definition cls_fs :: "string \<Rightarrow> filesys" where
  "cls_fs table =
     \<lparr>dirs = {''.'', ''in''},
      files = [''flask.config'' \<mapsto> ''RECOVCLS_OUT: recov.dat\<newline>CL_PREFIX: in/Cl-\<newline>'',
               ''recov.dat'' \<mapsto> table,
               ''in/Cl-f1f1.dat'' \<mapsto> ''1 5\<newline>2 6\<newline>'',
               ''in/Cl-f1f2.dat'' \<mapsto> ''1 7\<newline>2 8\<newline>3 9\<newline>''],
      readonly = {},
      wild = (\<lambda>_. [])\<rparr>"

text \<open>
  A file system for the path rule. The configuration file lies in
  \<open>/home/user/sims\<close> and has the given content. A RecovCls table and an input file
  of the field \<open>f1f1\<close> exist below the configuration directory, below \<open>/data\<close>, and,
  with other numbers, at the places a wrong resolution would look at: relative to
  the current directory, and at the configuration directory followed by the absolute
  value.
\<close>

definition res_fs :: "string \<Rightarrow> filesys" where
  "res_fs cfg =
     \<lparr>dirs = {''/'', ''.'', ''/home/user/sims''},
      files = [''/home/user/sims/flask.config'' \<mapsto> cfg,
               ''/home/user/sims/out/recov.dat'' \<mapsto> ''# l Cl-f1f1\<newline>1 10\<newline>2 20\<newline>'',
               ''/data/recov.dat'' \<mapsto> ''# l Cl-f1f1\<newline>3 30\<newline>4 40\<newline>'',
               ''out/recov.dat'' \<mapsto> ''# l Cl-f1f1\<newline>7 70\<newline>8 80\<newline>'',
               ''/home/user/sims//data/recov.dat'' \<mapsto> ''# l Cl-f1f1\<newline>7 70\<newline>8 80\<newline>'',
               ''/home/user/sims/in/Cl-f1f1.dat'' \<mapsto> ''1 5\<newline>2 6\<newline>'',
               ''/data/in/Cl-f1f1.dat'' \<mapsto> ''3 7\<newline>4 8\<newline>'',
               ''in/Cl-f1f1.dat'' \<mapsto> ''7 9\<newline>8 9\<newline>'',
               ''/home/user/sims//data/in/Cl-f1f1.dat'' \<mapsto> ''7 9\<newline>8 9\<newline>''],
      readonly = {},
      wild = (\<lambda>_. [])\<rparr>"

section \<open>Properties\<close>

subsection \<open>Splitting and deleting\<close>

lemma split_on_not_Nil: "split_on d s \<noteq> []"
  by (induction s) (auto split: list.splits)

lemma hd_split_on: "hd (split_on d s) = takeWhile (\<lambda>c. c \<noteq> d) s"
  using split_on_not_Nil[of d]
  by (induction s) (auto split: list.splits)

lemma split_on_absent: "d \<notin> set s \<Longrightarrow> split_on d s = [s]"
  by (induction s) (auto split: list.splits)

lemma split_on_present:
  "d \<in> set s \<Longrightarrow>
   split_on d s = takeWhile (\<lambda>c. c \<noteq> d) s # split_on d (tl (dropWhile (\<lambda>c. c \<noteq> d) s))"
  using split_on_not_Nil[of d]
  by (induction s) (auto split: list.splits)

lemma delete_sub_single: "delete_sub [d] 0 s = filter (\<lambda>c. c \<noteq> d) s"
  by (induction s) auto

lemma py_delete_single: "py_delete [d] s = filter (\<lambda>c. c \<noteq> d) s"
  by (simp add: py_delete_def delete_sub_single)

subsection \<open>The configuration reader\<close>

lemma search_loop_find_Some:
  "find (py_in a) ls = Some l \<Longrightarrow>
   search_loop ls a = (case extract_arg l of Inl e \<Rightarrow> Inl e | Inr args \<Rightarrow> Inr (Some args))"
  by (induction ls) (auto split: if_splits)

lemma search_loop_find_None: "find (py_in a) ls = None \<Longrightarrow> search_loop ls a = Inr None"
  by (induction ls) (auto split: if_splits)

lemma extract_arg_colon:
  assumes "CHR '':'' \<in> set line"
  shows "extract_arg line =
     Inr (takeWhile (\<lambda>c. c \<noteq> CHR ''#'')
            (filter (\<lambda>c. c \<noteq> CHR 0x09) (filter (\<lambda>c. c \<noteq> CHR '' '')
               (py_rstrip (takeWhile (\<lambda>c. c \<noteq> CHR '':'')
                  (tl (dropWhile (\<lambda>c. c \<noteq> CHR '':'') line)))))))"
proof -
  let ?rest = "tl (dropWhile (\<lambda>c. c \<noteq> CHR '':'') line)"
  obtain w ws where r: "split_on CHR '':'' ?rest = w # ws"
    using split_on_not_Nil[of "CHR '':''" ?rest] by (cases "split_on CHR '':'' ?rest") auto
  have w: "w = takeWhile (\<lambda>c. c \<noteq> CHR '':'') ?rest"
    using hd_split_on[of "CHR '':''" ?rest] r by simp
  show ?thesis
    unfolding extract_arg_def split_on_present[OF assms] r
    by (simp add: w py_delete_single hd_split_on)
qed

lemma extract_arg_no_colon: "CHR '':'' \<notin> set line \<Longrightarrow> extract_arg line = Inl IndexError"
  by (simp add: extract_arg_def split_on_absent)

text \<open>
  Claim C3, as the code has it. Let \<open>line\<close> be the first line of the configuration file
  in which \<open>argName\<close> occurs as a substring. If the line has no colon, the call raises
  \<open>IndexError\<close>. Otherwise the value is the text between the first colon and the next
  colon (or the end of the line), with the trailing white space stripped, every space
  and tab deleted, and cut at the first \<open>#\<close>; an empty value raises \<open>IndexError\<close>, a
  value that starts with \<open>0\<close> gives \<open>None\<close>, any other value is returned.
\<close>

theorem search_flask_args_first_match:
  assumes "files fs p = Some content"
    and "find (py_in argName) (py_lines content) = Some line"
  shows "search_flask_args fs p argName =
     (if CHR '':'' \<notin> set line then Inl IndexError
      else let seg = takeWhile (\<lambda>c. c \<noteq> CHR '':'')
                       (tl (dropWhile (\<lambda>c. c \<noteq> CHR '':'') line));
               v = takeWhile (\<lambda>c. c \<noteq> CHR ''#'')
                     (filter (\<lambda>c. c \<noteq> CHR '' '' \<and> c \<noteq> CHR 0x09) (py_rstrip seg))
           in if v = [] then Inl IndexError
              else if hd v = CHR ''0'' then Inr None
              else Inr (Some v))"
proof (cases "CHR '':'' \<in> set line")
  case False
  then show ?thesis
    using assms
    by (simp add: search_flask_args_def search_lines_def search_loop_find_Some
        extract_arg_no_colon)
next
  case True
  have f: "filter (\<lambda>c. c \<noteq> CHR 0x09) (filter (\<lambda>c. c \<noteq> CHR '' '') s) =
           filter (\<lambda>c. c \<noteq> CHR '' '' \<and> c \<noteq> CHR 0x09) s" for s
    by (induction s) auto
  show ?thesis
    using assms True
    by (simp add: search_flask_args_def search_lines_def search_loop_find_Some
        extract_arg_colon f Let_def split: list.splits)
qed

theorem search_flask_args_first_match_witness:
  "search_flask_args (config_fs ''NSIDE: 64 # resolution\<newline>RECOVCLS_OUT: out/recov.dat\<newline>'')
     ''flask.config'' ''RECOVCLS_OUT'' = Inr (Some ''out/recov.dat'')"
proof -
  let ?c = "''NSIDE: 64 # resolution\<newline>RECOVCLS_OUT: out/recov.dat\<newline>''"
  have h1: "files (config_fs ?c) ''flask.config'' = Some ?c"
    by (simp add: config_fs_def)
  have h2: "find (py_in ''RECOVCLS_OUT'') (py_lines ?c) = Some ''RECOVCLS_OUT: out/recov.dat\<newline>''"
    by simp
  show ?thesis
    using search_flask_args_first_match [OF h1 h2]
    by (simp add: py_rstrip_def py_isspace_def)
qed

text \<open>
  Claim C3 as stated fails on the code. A second colon ends the value; a space inside
  the value is deleted; and a first matching line without a colon (here a comment that
  mentions the key) makes the call raise instead of returning a value.
\<close>

theorem search_flask_args_counterexample:
  "search_flask_args (config_fs ''RECOVCLS_OUT: run:1/recov.dat\<newline>'')
     ''flask.config'' ''RECOVCLS_OUT'' = Inr (Some ''run'')
   \<and> spec_value ''RECOVCLS_OUT: run:1/recov.dat\<newline>'' = ''run:1/recov.dat''
   \<and> search_flask_args (config_fs ''RECOVCLS_OUT: my recov.dat\<newline>'')
     ''flask.config'' ''RECOVCLS_OUT'' = Inr (Some ''myrecov.dat'')
   \<and> spec_value ''RECOVCLS_OUT: my recov.dat\<newline>'' = ''my recov.dat''
   \<and> search_flask_args (config_fs ''# RECOVCLS_OUT is set below\<newline>RECOVCLS_OUT: recov.dat\<newline>'')
     ''flask.config'' ''RECOVCLS_OUT'' = Inl IndexError"
  by (simp add: search_flask_args_def search_lines_def extract_arg_def config_fs_def
      py_delete_def py_rstrip_def py_strip_def py_isspace_def spec_value_def)

text \<open>
  Claim C5. When the value extracted from the first matching line starts with the
  character \<open>0\<close> (the value \<open>0\<close> itself included), \<open>search_flask_args\<close> returns
  \<open>None\<close> and not the string.
\<close>

theorem search_flask_args_zero:
  assumes "files fs p = Some content"
    and "find (py_in argName) (py_lines content) = Some line"
    and "extract_arg line = Inr (CHR ''0'' # rest)"
  shows "search_flask_args fs p argName = Inr None"
  using assms
  by (simp add: search_flask_args_def search_lines_def search_loop_find_Some)

theorem search_flask_args_zero_witness:
  "extract_arg ''APPLY_PIXWIN: 0 # no window\<newline>'' = Inr ''0''
   \<and> search_flask_args (config_fs ''NSIDE: 64\<newline>APPLY_PIXWIN: 0 # no window\<newline>'')
        ''flask.config'' ''APPLY_PIXWIN'' = Inr None"
proof -
  let ?c = "''NSIDE: 64\<newline>APPLY_PIXWIN: 0 # no window\<newline>''"
  have h1: "files (config_fs ?c) ''flask.config'' = Some ?c"
    by (simp add: config_fs_def)
  have h2: "find (py_in ''APPLY_PIXWIN'') (py_lines ?c) = Some ''APPLY_PIXWIN: 0 # no window\<newline>''"
    by simp
  have h3: "extract_arg ''APPLY_PIXWIN: 0 # no window\<newline>'' = Inr (CHR ''0'' # [])"
    by (simp add: extract_arg_def py_delete_def py_rstrip_def py_isspace_def)
  show ?thesis
    using search_flask_args_zero [OF h1 h2 h3] h3 by simp
qed

subsection \<open>The output folder\<close>

lemma path_head_abs: "path_head (CHR ''/'' # q) = CHR ''/'' # path_head q"
  by (simp add: path_head_def dropWhile_append3)

lemma rstrip_char_abs:
  assumes "CHR ''/'' # h \<noteq> replicate (length (CHR ''/'' # h)) CHR ''/''"
  shows "rstrip_char CHR ''/'' (CHR ''/'' # h) = CHR ''/'' # rstrip_char CHR ''/'' h"
proof -
  have "h \<noteq> replicate (length h) CHR ''/''"
    using assms by simp
  then obtain x where x: "x \<in> set h" "x \<noteq> CHR ''/''"
    by (metis replicate_eqI)
  then have "x \<in> set (rev h)" by simp
  with x(2) have "dropWhile (\<lambda>c. c = CHR ''/'') (rev h @ [CHR ''/'']) =
      dropWhile (\<lambda>c. c = CHR ''/'') (rev h) @ [CHR ''/'']"
    by (simp add: dropWhile_append1)
  then show ?thesis
    by (simp add: rstrip_char_def)
qed

text \<open>The directory of an absolute path is absolute.\<close>

lemma dirname_abs: "\<exists>t. dirname (CHR ''/'' # q) = CHR ''/'' # t"
proof (cases "CHR ''/'' # path_head q = replicate (length (CHR ''/'' # path_head q)) CHR ''/''")
  case True
  then show ?thesis
    by (simp add: dirname_def path_head_abs Let_def)
next
  case False
  then show ?thesis
    using rstrip_char_abs[OF False]
    by (simp add: dirname_def path_head_abs Let_def)
qed

lemma parent_dir_abs: "\<exists>t. parent_dir (CHR ''/'' # q) = CHR ''/'' # t"
  using dirname_abs[of q] by (auto simp: parent_dir_def Let_def)

text \<open>A directory that could not be created under an absolute path can still not
  be created there after a relative path was added.\<close>

lemma mkdir_fails_again:
  assumes "mkdir fs (CHR ''/'' # q) = Inl e" "\<not> isdir fs (CHR ''/'' # q)"
  shows "mkdir (fs\<lparr>dirs := insert (CHR ''.'' # r) (dirs fs)\<rparr>) (CHR ''/'' # q) = Inl OSError"
proof -
  obtain t where t: "parent_dir (CHR ''/'' # q) = CHR ''/'' # t"
    using parent_dir_abs by blast
  show ?thesis
    using assms
    by (auto simp: mkdir_def lexists_def isdir_def isfile_def t split: if_splits)
qed

lemma sim_fs_first_call:
  "create_output_folder sim_fs ''/home/user/sims/flask.config'' =
     Inr (sim_fs\<lparr>dirs := insert ''./check_RecovCls-flask'' (dirs sim_fs)\<rparr>,
          ''./check_RecovCls-flask'')"
  by (simp add: create_output_folder_def sim_fs_def Let_def path_join_def dirname_def
      path_head_def basename_def splitext_root_def rstrip_char_def mkdir_def isdir_def
      lexists_def isfile_def parent_dir_def)

text \<open>Whatever the directory of the configuration file, the folder that is returned
  is the one at the root or the one in the current directory.\<close>

lemma create_output_folder_names:
  assumes "create_output_folder fs config = Inr (fs', folder)"
  shows "folder = ''/check_RecovCls-'' @ splitext_root (basename config) \<or>
         folder = ''./check_RecovCls-'' @ splitext_root (basename config)"
proof -
  define P where "P = ''/check_RecovCls-'' @ splitext_root (basename config)"
  have pj: "path_join d (''/check_RecovCls-'' @ x) = ''/check_RecovCls-'' @ x" for d x
    by (simp add: path_join_def)
  have "create_output_folder fs config =
     (if isdir fs P then Inr (fs, P)
      else (case mkdir fs P of
              Inr g' \<Rightarrow> Inr (g', P)
            | Inl _ \<Rightarrow>
                (if isdir fs (''.'' @ P) then Inr (fs, ''.'' @ P)
                 else (case mkdir fs (''.'' @ P) of
                         Inr g' \<Rightarrow> Inr (g', ''.'' @ P)
                       | Inl e \<Rightarrow> Inl e))))"
    unfolding create_output_folder_def Let_def pj P_def
    by (rule refl)
  with assms have "folder = P \<or> folder = ''.'' @ P"
    by (simp split: if_splits sum.splits)
  then show ?thesis
    by (simp add: P_def)
qed

text \<open>
  Claim C2 at a failing input. The configuration file lies in the writable directory
  \<open>/home/user/sims\<close>, so the folder should become
  \<open>/home/user/sims/check_RecovCls-flask\<close>. The folder name starts with a slash,
  and \<open>os.path.join\<close> drops the configuration directory before such a component:
  the code tries \<open>/check_RecovCls-flask\<close> at the root. Where the root cannot be
  written to it falls back to the current directory; where it can, the folder is
  created at the root. In neither case is the folder next to the configuration file.
\<close>

theorem create_output_folder_not_sibling:
  "create_output_folder sim_fs ''/home/user/sims/flask.config'' =
     Inr (sim_fs\<lparr>dirs := insert ''./check_RecovCls-flask'' (dirs sim_fs)\<rparr>,
          ''./check_RecovCls-flask'')
   \<and> create_output_folder (sim_fs\<lparr>readonly := {}\<rparr>) ''/home/user/sims/flask.config'' =
     Inr (sim_fs\<lparr>dirs := insert ''/check_RecovCls-flask'' (dirs sim_fs), readonly := {}\<rparr>,
          ''/check_RecovCls-flask'')
   \<and> isdir sim_fs (dirname ''/home/user/sims/flask.config'')
   \<and> dirname ''/home/user/sims/flask.config'' \<notin> readonly sim_fs"
  by (simp add: sim_fs_first_call)
     (simp add: create_output_folder_def sim_fs_def Let_def path_join_def dirname_def
      path_head_def basename_def splitext_root_def rstrip_char_def mkdir_def isdir_def
      lexists_def isfile_def parent_dir_def)

text \<open>
  Claim C10. When a call of \<open>create_output_folder\<close> has returned, a second call with
  the same configuration path on the file system the first call left behind returns
  too, gives the same folder name and changes nothing.
\<close>

theorem create_output_folder_idempotent:
  assumes "create_output_folder fs config = Inr (fs', folder)"
  shows "create_output_folder fs' config = Inr (fs', folder)"
proof -
  define q where "q = ''check_RecovCls-'' @ splitext_root (basename config)"
  define P where "P = ''/check_RecovCls-'' @ splitext_root (basename config)"
  define F where "F = ''.'' @ P"
  have Pq: "P = CHR ''/'' # q" and Fq: "F = CHR ''.'' # P"
    by (simp_all add: P_def q_def F_def)
  have pj: "path_join d (''/check_RecovCls-'' @ x) = ''/check_RecovCls-'' @ x" for d x
    by (simp add: path_join_def)
  have cof: "create_output_folder g config =
     (if isdir g P then Inr (g, P)
      else (case mkdir g P of
              Inr g' \<Rightarrow> Inr (g', P)
            | Inl _ \<Rightarrow>
                (if isdir g F then Inr (g, F)
                 else (case mkdir g F of Inr g' \<Rightarrow> Inr (g', F) | Inl e \<Rightarrow> Inl e))))" for g
    unfolding create_output_folder_def Let_def pj F_def P_def
    by (rule refl)
  show ?thesis
  proof (cases "isdir fs P")
    case True
    with assms show ?thesis by (simp add: cof)
  next
    case noP: False
    show ?thesis
    proof (cases "mkdir fs P")
      case (Inr g)
      with noP assms have "fs' = g" "folder = P" by (simp_all add: cof)
      moreover from Inr have "isdir g P"
        by (auto simp: mkdir_def isdir_def split: if_splits)
      ultimately show ?thesis by (simp add: cof)
    next
      case (Inl e)
      show ?thesis
      proof (cases "isdir fs F")
        case True
        with noP Inl assms show ?thesis by (simp add: cof)
      next
        case noF: False
        with noP Inl assms have mk: "mkdir fs F = Inr fs'" and f: "folder = F"
          by (auto simp: cof split: sum.splits)
        from mk have fs': "fs' = fs\<lparr>dirs := insert F (dirs fs)\<rparr>"
          by (auto simp: mkdir_def split: if_splits)
        have 1: "\<not> isdir fs' P" using noP by (simp add: fs' isdir_def Fq Pq)
        have 2: "mkdir fs' P = Inl OSError"
          unfolding fs' using mkdir_fails_again[of fs q e P] Inl noP
          by (simp add: Pq Fq)
        have 3: "isdir fs' F" by (simp add: fs' isdir_def)
        show ?thesis by (simp add: cof 1 2 3 f)
      qed
    qed
  qed
qed

theorem create_output_folder_idempotent_witness:
  "create_output_folder (sim_fs\<lparr>dirs := insert ''./check_RecovCls-flask'' (dirs sim_fs)\<rparr>)
     ''/home/user/sims/flask.config'' =
   Inr (sim_fs\<lparr>dirs := insert ''./check_RecovCls-flask'' (dirs sim_fs)\<rparr>,
        ''./check_RecovCls-flask'')"
  using create_output_folder_idempotent [OF sim_fs_first_call] .

subsection \<open>Path resolution\<close>

lemma search_flask_args_Some_nonempty:
  "search_flask_args fs p a = Inr (Some v) \<Longrightarrow> v \<noteq> []"
  by (auto simp: search_flask_args_def search_lines_def
      split: option.splits sum.splits list.splits if_splits)

lemma resolve_path_nonempty:
  "v \<noteq> [] \<Longrightarrow>
   resolve_path d v = Inr (if hd v = CHR ''/'' then v else path_join d v)"
  by (cases v) (simp_all add: resolve_path_def)

text \<open>The directory of a path without a slash is empty; the directory of
  \<open>dir/name\<close> is \<open>dir\<close>.\<close>

lemma dirname_no_slash: "CHR ''/'' \<notin> set p \<Longrightarrow> dirname p = []"
proof -
  assume "CHR ''/'' \<notin> set p"
  then have "dropWhile (\<lambda>c. c \<noteq> CHR ''/'') (rev p) = []"
    by (auto simp: dropWhile_eq_Nil_conv)
  then show ?thesis
    by (simp add: dirname_def path_head_def)
qed

lemma dirname_dir_name:
  assumes "CHR ''/'' \<notin> set name" and "dir \<noteq> []" and "last dir \<noteq> CHR ''/''"
  shows "dirname (dir @ CHR ''/'' # name) = dir"
proof -
  have "dropWhile (\<lambda>c. c \<noteq> CHR ''/'') (rev name @ CHR ''/'' # rev dir) = CHR ''/'' # rev dir"
    using assms(1) by (subst dropWhile_append2) auto
  then have h: "path_head (dir @ CHR ''/'' # name) = dir @ [CHR ''/'']"
    by (simp add: path_head_def)
  have "last dir \<in> set (dir @ [CHR ''/''])"
    using assms(2) by simp
  then have ne: "dir @ [CHR ''/''] \<noteq> replicate (length (dir @ [CHR ''/''])) CHR ''/''"
    using assms(3) by (metis in_set_replicate)
  obtain x xs where r: "rev dir = x # xs" and x: "x \<noteq> CHR ''/''"
    using assms(2,3) by (cases "rev dir") (auto simp: last_rev[symmetric] hd_rev)
  have "rstrip_char CHR ''/'' (dir @ [CHR ''/'']) = rev (rev dir)"
    by (simp add: rstrip_char_def r x)
  then have s: "rstrip_char CHR ''/'' (dir @ [CHR ''/'']) = dir"
    by simp
  show ?thesis
    unfolding dirname_def h Let_def using ne s by simp
qed

text \<open>\<open>os.path.join\<close> written out for a second component that is relative.\<close>

lemma path_join_relative:
  assumes "v \<noteq> []" and "hd v \<noteq> CHR ''/''"
  shows "path_join d v =
     (if d = [] then v else if last d = CHR ''/'' then d @ v else d @ CHR ''/'' # v)"
  using assms by (simp add: path_join_def)

text \<open>
  Claim C6. Let \<open>d\<close> be the directory of the configuration file: empty for a path
  without a slash, \<open>dir\<close> for a path \<open>dir/name\<close>. A configured value that starts with
  a slash is the path as it is. Any other value is joined with \<open>d\<close>: it stays as it
  is when \<open>d\<close> is empty, is appended to \<open>d\<close> when \<open>d\<close> ends with a slash, and is
  appended to \<open>d\<close> and a slash otherwise. \<open>get_recov_cls_dict\<close> loads the table from
  the path so resolved, and \<open>get_input_cls_dict\<close> looks for the input files under the
  prefix so resolved.
\<close>

theorem path_resolution_shared:
  assumes "search_flask_args fs config ''RECOVCLS_OUT'' = Inr (Some r)"
    and "search_flask_args fs config ''CL_PREFIX'' = Inr (Some c)"
  shows "get_recov_cls_dict conv fs config =
           load_recov_cls conv fs
             (if hd r = CHR ''/'' then r
              else if dirname config = [] then r
              else if last (dirname config) = CHR ''/'' then dirname config @ r
              else dirname config @ CHR ''/'' # r)
       \<and> get_input_cls_dict conv fs config RecovDict =
           input_loop conv fs
             (if hd c = CHR ''/'' then c
              else if dirname config = [] then c
              else if last (dirname config) = CHR ''/'' then dirname config @ c
              else dirname config @ CHR ''/'' # c)
             [] (dict_keys RecovDict)
       \<and> (CHR ''/'' \<notin> set config \<longrightarrow> dirname config = [])
       \<and> (\<forall>dir name. config = dir @ CHR ''/'' # name \<and> CHR ''/'' \<notin> set name \<and>
              dir \<noteq> [] \<and> last dir \<noteq> CHR ''/'' \<longrightarrow> dirname config = dir)"
proof -
  note rn = search_flask_args_Some_nonempty[OF assms(1)]
  note cn = search_flask_args_Some_nonempty[OF assms(2)]
  have a: "get_recov_cls_dict conv fs config =
           load_recov_cls conv fs
             (if hd r = CHR ''/'' then r
              else if dirname config = [] then r
              else if last (dirname config) = CHR ''/'' then dirname config @ r
              else dirname config @ CHR ''/'' # r)"
    using assms(1) rn
    by (simp add: get_recov_cls_dict_def get_config_path_def resolve_path_nonempty
        path_join_relative Let_def)
  have b: "get_input_cls_dict conv fs config RecovDict =
           input_loop conv fs
             (if hd c = CHR ''/'' then c
              else if dirname config = [] then c
              else if last (dirname config) = CHR ''/'' then dirname config @ c
              else dirname config @ CHR ''/'' # c)
             [] (dict_keys RecovDict)"
    using assms(2) cn
    by (simp add: get_input_cls_dict_def get_config_path_def resolve_path_nonempty
        path_join_relative Let_def)
  have c: "CHR ''/'' \<notin> set config \<longrightarrow> dirname config = []"
    by (simp add: dirname_no_slash)
  have d: "\<forall>dir name. config = dir @ CHR ''/'' # name \<and> CHR ''/'' \<notin> set name \<and>
              dir \<noteq> [] \<and> last dir \<noteq> CHR ''/'' \<longrightarrow> dirname config = dir"
    by (auto simp: dirname_dir_name)
  show ?thesis
    by (intro conjI a b c d)
qed

lemma res_fs_search_relative_recov:
  "search_flask_args (res_fs ''RECOVCLS_OUT: out/recov.dat\<newline>CL_PREFIX: /data/in/Cl-\<newline>'')
     ''/home/user/sims/flask.config'' ''RECOVCLS_OUT'' = Inr (Some ''out/recov.dat'')"
  "search_flask_args (res_fs ''RECOVCLS_OUT: out/recov.dat\<newline>CL_PREFIX: /data/in/Cl-\<newline>'')
     ''/home/user/sims/flask.config'' ''CL_PREFIX'' = Inr (Some ''/data/in/Cl-'')"
  by code_simp+

lemma res_fs_search_relative_prefix:
  "search_flask_args (res_fs ''RECOVCLS_OUT: /data/recov.dat\<newline>CL_PREFIX: in/Cl-\<newline>'')
     ''/home/user/sims/flask.config'' ''RECOVCLS_OUT'' = Inr (Some ''/data/recov.dat'')"
  "search_flask_args (res_fs ''RECOVCLS_OUT: /data/recov.dat\<newline>CL_PREFIX: in/Cl-\<newline>'')
     ''/home/user/sims/flask.config'' ''CL_PREFIX'' = Inr (Some ''in/Cl-'')"
  by code_simp+

lemma sims_dirname: "dirname ''/home/user/sims/flask.config'' = ''/home/user/sims''"
  by (simp add: dirname_def path_head_def rstrip_char_def)

theorem path_resolution_shared_witness:
  "get_recov_cls_dict float_of_digits
     (res_fs ''RECOVCLS_OUT: out/recov.dat\<newline>CL_PREFIX: /data/in/Cl-\<newline>'')
     ''/home/user/sims/flask.config'' =
   Inr [(''l'', Vec [1, 2]), (''f1f1'', Vec [10, 20])]
   \<and> get_input_cls_dict float_of_digits
     (res_fs ''RECOVCLS_OUT: out/recov.dat\<newline>CL_PREFIX: /data/in/Cl-\<newline>'')
     ''/home/user/sims/flask.config'' [(''f1f1'', Vec [10, 20])] =
   Inr [(''l'', Vec [3, 4]), (''f1f1'', Vec [7, 8])]
   \<and> get_recov_cls_dict float_of_digits
     (res_fs ''RECOVCLS_OUT: /data/recov.dat\<newline>CL_PREFIX: in/Cl-\<newline>'')
     ''/home/user/sims/flask.config'' =
   Inr [(''l'', Vec [3, 4]), (''f1f1'', Vec [30, 40])]
   \<and> get_input_cls_dict float_of_digits
     (res_fs ''RECOVCLS_OUT: /data/recov.dat\<newline>CL_PREFIX: in/Cl-\<newline>'')
     ''/home/user/sims/flask.config'' [(''f1f1'', Vec [30, 40])] =
   Inr [(''l'', Vec [1, 2]), (''f1f1'', Vec [5, 6])]"
proof -
  let ?A = "res_fs ''RECOVCLS_OUT: out/recov.dat\<newline>CL_PREFIX: /data/in/Cl-\<newline>''"
  let ?B = "res_fs ''RECOVCLS_OUT: /data/recov.dat\<newline>CL_PREFIX: in/Cl-\<newline>''"
  note A = path_resolution_shared [OF res_fs_search_relative_recov,
      where conv = float_of_digits and RecovDict = "[(''f1f1'', Vec [10, 20])]"]
  note B = path_resolution_shared [OF res_fs_search_relative_prefix,
      where conv = float_of_digits and RecovDict = "[(''f1f1'', Vec [30, 40])]"]
  have l1: "load_recov_cls float_of_digits ?A ''/home/user/sims/out/recov.dat'' =
              Inr [(''l'', Vec [1, 2]), (''f1f1'', Vec [10, 20])]"
    by code_simp
  have l2: "input_loop float_of_digits ?A ''/data/in/Cl-'' [] (dict_keys [(''f1f1'', Vec [10, 20])]) =
              Inr [(''l'', Vec [3, 4]), (''f1f1'', Vec [7, 8])]"
    by code_simp
  have l3: "load_recov_cls float_of_digits ?B ''/data/recov.dat'' =
              Inr [(''l'', Vec [3, 4]), (''f1f1'', Vec [30, 40])]"
    by code_simp
  have l4: "input_loop float_of_digits ?B ''/home/user/sims/in/Cl-'' []
              (dict_keys [(''f1f1'', Vec [30, 40])]) =
              Inr [(''l'', Vec [1, 2]), (''f1f1'', Vec [5, 6])]"
    by code_simp
  have 1: "get_recov_cls_dict float_of_digits ?A ''/home/user/sims/flask.config'' =
             Inr [(''l'', Vec [1, 2]), (''f1f1'', Vec [10, 20])]"
    using A [THEN conjunct1] by (simp add: sims_dirname l1)
  have 2: "get_input_cls_dict float_of_digits ?A ''/home/user/sims/flask.config''
             [(''f1f1'', Vec [10, 20])] = Inr [(''l'', Vec [3, 4]), (''f1f1'', Vec [7, 8])]"
    using A [THEN conjunct2, THEN conjunct1] l2 by (simp add: sims_dirname)
  have 3: "get_recov_cls_dict float_of_digits ?B ''/home/user/sims/flask.config'' =
             Inr [(''l'', Vec [3, 4]), (''f1f1'', Vec [30, 40])]"
    using B [THEN conjunct1] by (simp add: sims_dirname l3)
  have 4: "get_input_cls_dict float_of_digits ?B ''/home/user/sims/flask.config''
             [(''f1f1'', Vec [30, 40])] = Inr [(''l'', Vec [1, 2]), (''f1f1'', Vec [5, 6])]"
    using B [THEN conjunct2, THEN conjunct1] l4 by (simp add: sims_dirname)
  show ?thesis
    by (intro conjI 1 2 3 4)
qed

subsection \<open>The multipole range\<close>

lemma fold_min_Min: "fold min xs (x::real) = Min (insert x (set xs))"
  using Min.set_eq_fold[of x xs] by simp

lemma fold_max_Max: "fold max xs (x::real) = Max (insert x (set xs))"
  using Max.set_eq_fold[of x xs] by simp

lemma np_min_Min: "np_elems a \<noteq> [] \<Longrightarrow> np_min a = Inr (Min (set (np_elems a)))"
  by (auto simp: np_min_def np_elems_def fold_min_Min split: npval.splits list.splits)

lemma np_max_Max: "np_elems a \<noteq> [] \<Longrightarrow> np_max a = Inr (Max (set (np_elems a)))"
  by (auto simp: np_max_def np_elems_def fold_max_Max split: npval.splits list.splits)

lemma Min_of_int_upto: "a \<le> b \<Longrightarrow> Min (set (map real_of_int [a..b])) = of_int a"
  by (intro Min_eqI) auto

lemma Max_of_int_upto: "a \<le> b \<Longrightarrow> Max (set (map real_of_int [a..b])) = of_int b"
  by (intro Max_eqI) auto

text \<open>
  Claim C9. For two dictionaries whose \<open>'l'\<close> entries hold at least one value,
  \<open>check_ell_range\<close> returns \<open>True\<close>, printing nothing, exactly when the two minima
  are equal and the two maxima are equal; otherwise it returns \<open>False\<close> after
  printing the notice and the two ranges.
\<close>

theorem check_ell_range_iff:
  assumes "map_of recovcls ''l'' = Some rl" and "np_elems rl \<noteq> []"
    and "map_of inputcls ''l'' = Some il" and "np_elems il \<noteq> []"
  shows "check_ell_range recovcls inputcls =
     (let rmin = Min (set (np_elems rl)); rmax = Max (set (np_elems rl));
          imin = Min (set (np_elems il)); imax = Max (set (np_elems il))
      in if rmin = imin \<and> rmax = imax then Inr (True, [])
         else Inr (False,
                [[Str ''Different ell ranges.''],
                 [Str ''\<newline>Recov: '', Num rmin, Str '' '', Num rmax],
                 [Str ''\<newline>Input: '', Num imin, Str '' '', Num imax]]))"
  using assms
  by (simp add: check_ell_range_def dict_get_def np_min_Min np_max_Max Let_def)

theorem check_ell_range_iff_witness:
  "check_ell_range [(''l'', Vec (map of_int [2..100]))] [(''l'', Vec (map of_int [1..150]))] =
     Inr (False,
       [[Str ''Different ell ranges.''],
        [Str ''\<newline>Recov: '', Num 2, Str '' '', Num 100],
        [Str ''\<newline>Input: '', Num 1, Str '' '', Num 150]])
   \<and> check_ell_range [(''l'', Vec (map of_int [2..100]))] [(''l'', Vec [100, 2])] =
     Inr (True, [])"
proof -
  let ?r = "Vec (map of_int [2..100])" and ?i = "Vec (map of_int [1..150])"
  let ?j = "Vec [100, 2]"
  have r: "np_elems ?r \<noteq> []" and i: "np_elems ?i \<noteq> []" and j: "np_elems ?j \<noteq> []"
    by (simp_all add: np_elems_def upto_rec1)
  have m: "map_of [(''l'', v)] ''l'' = Some v" for v :: npval
    by simp
  have mins: "Min (set (np_elems ?r)) = 2" "Min (set (np_elems ?i)) = 1"
    "Min (set (np_elems ?j)) = 2"
    using Min_of_int_upto[of 2 100] Min_of_int_upto[of 1 150] by (simp_all add: np_elems_def)
  have maxs: "Max (set (np_elems ?r)) = 100" "Max (set (np_elems ?i)) = 150"
    "Max (set (np_elems ?j)) = 100"
    using Max_of_int_upto[of 2 100] Max_of_int_upto[of 1 150] by (simp_all add: np_elems_def)
  have ne: "\<not> ((2::real) = 1 \<and> (100::real) = 150)" and eq: "(2::real) = 2 \<and> (100::real) = 100"
    by simp_all
  have "check_ell_range [(''l'', ?r)] [(''l'', ?i)] =
     Inr (False,
       [[Str ''Different ell ranges.''],
        [Str ''\<newline>Recov: '', Num 2, Str '' '', Num 100],
        [Str ''\<newline>Input: '', Num 1, Str '' '', Num 150]])"
    using check_ell_range_iff [OF m r m i] ne unfolding Let_def mins maxs
    by (simp only: if_False simp_thms)
  moreover have "check_ell_range [(''l'', ?r)] [(''l'', ?j)] = Inr (True, [])"
    using check_ell_range_iff [OF m r m j] eq unfolding Let_def mins maxs
    by (simp only: if_True simp_thms)
  ultimately show ?thesis by (rule conjI)
qed

lemma np_arange_int:
  "np_arange (of_int a) (of_int b + 1) = map of_int [a..b]"
proof -
  have "nat \<lceil>(of_int b + 1 :: real) - of_int a\<rceil> = nat (b + 1 - a)"
    by (metis (no_types, opaque_lifting) ceiling_of_int of_int_1 of_int_add of_int_diff)
  moreover have "map (\<lambda>i. (of_int a :: real) + real i) [0..<n] = map of_int [a .. a + int n - 1]" for n
  proof (induction n)
    case 0
    then show ?case by simp
  next
    case (Suc n)
    have "[a .. a + int (Suc n) - 1] = [a .. a + int n - 1] @ [a + int n]"
      using upto_rec2[of a "a + int n"] by simp
    with Suc show ?case by simp
  qed
  ultimately show ?thesis
    by (cases "a \<le> b + 1") (simp_all add: np_arange_def)
qed

text \<open>
  Claim C4. When the two \<open>'l'\<close> arrays differ in their minimum or their maximum, the
  grid of \<open>plot_recov_vs_input\<close> starts at the larger of the two minima and ends at
  the smaller of the two maxima; for multipoles, whose bounds are integers
  \<open>ell_min\<close> and \<open>ell_max\<close>, it is the list of all integers from \<open>ell_min\<close> to
  \<open>ell_max\<close>, both included. For the ranges 2 to 100 and 1 to 150 it is 2 to 100.
\<close>

theorem plot_ell_vec_grid:
  assumes "map_of recovcls ''l'' = Some rl" and "np_elems rl \<noteq> []"
    and "map_of inputcls ''l'' = Some il" and "np_elems il \<noteq> []"
    and "Min (set (np_elems rl)) \<noteq> Min (set (np_elems il)) \<or>
         Max (set (np_elems rl)) \<noteq> Max (set (np_elems il))"
    and "max (Min (set (np_elems rl))) (Min (set (np_elems il))) = of_int ell_min"
    and "min (Max (set (np_elems rl))) (Max (set (np_elems il))) = of_int ell_max"
  shows "plot_ell_vec recovcls inputcls = Inr (map of_int [ell_min .. ell_max])"
  using assms(1-5) np_arange_int[of ell_min ell_max]
  unfolding assms(6,7)[symmetric]
  by (auto simp add: plot_ell_vec_def check_ell_range_def dict_get_def np_min_Min
      np_max_Max Let_def)

theorem plot_ell_vec_grid_witness:
  "plot_ell_vec [(''l'', Vec (map of_int [2..100]))] [(''l'', Vec (map of_int [1..150]))] =
     Inr (map of_int [2..100])"
proof -
  let ?r = "Vec (map of_int [2..100])" and ?i = "Vec (map of_int [1..150])"
  have r: "np_elems ?r \<noteq> []" and i: "np_elems ?i \<noteq> []"
    by (simp_all add: np_elems_def upto_rec1)
  have m: "map_of [(''l'', v)] ''l'' = Some v" for v :: npval
    by simp
  have mins: "Min (set (np_elems ?r)) = 2" "Min (set (np_elems ?i)) = 1"
    using Min_of_int_upto[of 2 100] Min_of_int_upto[of 1 150] by (simp_all add: np_elems_def)
  have maxs: "Max (set (np_elems ?r)) = 100" "Max (set (np_elems ?i)) = 150"
    using Max_of_int_upto[of 2 100] Max_of_int_upto[of 1 150] by (simp_all add: np_elems_def)
  have d: "Min (set (np_elems ?r)) \<noteq> Min (set (np_elems ?i)) \<or>
           Max (set (np_elems ?r)) \<noteq> Max (set (np_elems ?i))"
    unfolding mins by simp
  have lo: "max (Min (set (np_elems ?r))) (Min (set (np_elems ?i))) = of_int 2"
    unfolding mins by simp
  have hi: "min (Max (set (np_elems ?r))) (Max (set (np_elems ?i))) = of_int 100"
    unfolding maxs by simp
  show ?thesis
    by (rule plot_ell_vec_grid [OF m r m i d lo hi])
qed

subsection \<open>Tables and their columns\<close>

lemma map_nth_fun: "map (\<lambda>j. f (xs ! j)) [0..<length xs] = map f xs"
  by (rule nth_equalityI) auto

text \<open>The transpose of a table whose rows all have \<open>n\<close> fields: its \<open>n\<close> columns.\<close>

lemma transpose_rect:
  assumes "rows \<noteq> []" and "list_all (\<lambda>r. length r = n) rows"
  shows "transpose rows = map (\<lambda>i. map (\<lambda>r. r ! i) rows) [0..<n]"
proof -
  have rect: "length (rows ! i) = n" if "i < length rows" for i
    using assms(2) that by (simp add: list_all_length)
  have "transpose rows = map (\<lambda>i. map (\<lambda>j. rows ! j ! i) [0..<length rows]) [0..<n]"
    using assms(1) rect by (intro transpose_rectangle) auto
  then show ?thesis
    by (simp add: map_nth_fun[of "\<lambda>r. r ! i" rows for i])
qed


lemma squeeze_matrix:
  assumes "2 \<le> length rows" and "list_all (\<lambda>r. length r = n) rows" and "n \<noteq> 1"
  shows "squeeze rows = A2 rows"
proof -
  obtain r r' rest where rows: "rows = r # r' # rest"
    using assms(1) by (cases rows; cases "tl rows") auto
  with assms(2,3) show ?thesis
    by (auto simp: squeeze_def)
qed



subsection \<open>Dictionary updates\<close>


lemma update_not_Nil: "AList.update k v al \<noteq> []"
  by (cases al) auto



subsection \<open>The recovered dictionary\<close>

lemma header_f1f1_f1f2:
  "header_names ''# Cl-f1f1 Cl-f1f2\<newline>'' = Inr [''f1f1'', ''f1f2'']"
  by (simp add: header_names_def py_delete_def py_rstrip_def py_isspace_def)

text \<open>
  Claim C1, with the key the code gives the second column. For a RecovCls file whose
  first line is \<open># Cl-f1f1 Cl-f1f2\<close> and whose table has two fields in each of at
  least two rows, \<open>get_recov_cls_dict\<close> returns the dictionary with the keys
  \<open>f1f1\<close> and \<open>f1f2\<close>, in this order; the first holds the first column, the second
  the second column, each with one value for every row of the table.
\<close>

theorem get_recov_cls_dict_two_columns:
  assumes "search_flask_args fs config ''RECOVCLS_OUT'' = Inr (Some v)"
    and "resolve_path (get_config_path config) v = Inr path"
    and "files fs path = Some content"
    and "py_lines content = ''# Cl-f1f1 Cl-f1f2\<newline>'' # rest"
    and "loadtxt_rows conv (py_lines content) = Inr rows"
    and "2 \<le> length rows"
    and "list_all (\<lambda>r. length r = 2) rows"
  shows "get_recov_cls_dict conv fs config =
           Inr [(''f1f1'', Vec (map (\<lambda>r. r ! 0) rows)), (''f1f2'', Vec (map (\<lambda>r. r ! 1) rows))]
       \<and> length (map (\<lambda>r. r ! 0) rows) = length rows
       \<and> length (map (\<lambda>r. r ! 1) rows) = length rows"
proof -
  have ne: "rows \<noteq> []" using assms(6) by auto
  have hd2: "length (hd rows) = 2"
    using ne assms(7) by (cases rows) auto
  have sq: "squeeze rows = A2 rows"
    using squeeze_matrix[OF assms(6,7)] by simp
  have ld: "loadtxt conv fs path = Inr (A2 rows)"
    using assms(3,5,7) by (simp add: loadtxt_def hd2 sq)
  have "[0..<2] = [0, Suc 0]"
    by (simp add: upt_rec)
  then have tr: "transpose rows = [map (\<lambda>r. r ! 0) rows, map (\<lambda>r. r ! 1) rows]"
    using transpose_rect[OF ne assms(7)] by simp
  have "load_recov_cls conv fs path =
          Inr [(''f1f1'', Vec (map (\<lambda>r. r ! 0) rows)), (''f1f2'', Vec (map (\<lambda>r. r ! 1) rows))]"
    using assms(3,4)
    by (simp add: load_recov_cls_def isfile_def ld header_f1f1_f1f2 iter_T_def tr)
  then show ?thesis
    using assms(1,2) by (simp add: get_recov_cls_dict_def Let_def)
qed

lemma cls_fs_recov_two_rows:
  "get_recov_cls_dict float_of_digits
     (cls_fs ''# Cl-f1f1 Cl-f1f2\<newline>1 2\<newline>3 4\<newline>'') ''flask.config'' =
   Inr [(''f1f1'', Vec [1, 3]), (''f1f2'', Vec [2, 4])]"
  by code_simp

lemma cls_fs_recov_one_row:
  "get_recov_cls_dict float_of_digits
     (cls_fs ''# Cl-f1f1 Cl-f1f2\<newline>1 2\<newline>'') ''flask.config'' =
   Inr [(''f1f1'', Scalar 1), (''f1f2'', Scalar 2)]"
  by code_simp


theorem get_recov_cls_dict_two_columns_witness:
  "get_recov_cls_dict float_of_digits
     (cls_fs ''# Cl-f1f1 Cl-f1f2\<newline>1 2\<newline>3 4\<newline>'') ''flask.config'' =
   Inr [(''f1f1'', Vec (map (\<lambda>r. r ! 0) [[1, 2], [3, 4]])),
        (''f1f2'', Vec (map (\<lambda>r. r ! 1) [[1, 2], [3, 4]]))]"
proof -
  let ?t = "''# Cl-f1f1 Cl-f1f2\<newline>1 2\<newline>3 4\<newline>''"
  have h1: "search_flask_args (cls_fs ?t) ''flask.config'' ''RECOVCLS_OUT'' = Inr (Some ''recov.dat'')"
    by code_simp
  have h2: "resolve_path (get_config_path ''flask.config'') ''recov.dat'' = Inr ''recov.dat''"
    by code_simp
  have h3: "files (cls_fs ?t) ''recov.dat'' = Some ?t"
    by (simp add: cls_fs_def)
  have h4: "py_lines ?t = ''# Cl-f1f1 Cl-f1f2\<newline>'' # [''1 2\<newline>'', ''3 4\<newline>'']"
    by simp
  have h5: "loadtxt_rows float_of_digits (py_lines ?t) = Inr [[1, 2], [3, 4]]"
    by code_simp
  have h6: "2 \<le> length [[1, 2], [3, 4 :: real]]"
    by simp
  have h7: "list_all (\<lambda>r. length r = 2) [[1, 2], [3, 4 :: real]]"
    by simp
  from get_recov_cls_dict_two_columns [OF h1 h2 h3 h4 h5 h6 h7]
  show ?thesis by (rule conjunct1)
qed

text \<open>
  Claim C1 as stated fails on the code: for the header \<open># Cl-f1f1 Cl-f1f2\<close> the
  second key is \<open>f1f2\<close>, and the dictionary has no key \<open>f2f2\<close>. With a single row
  of data \<open>np.loadtxt\<close> returns a vector, and the two keys hold numbers, which have
  no length.
\<close>

theorem get_recov_cls_dict_counterexample:
  "get_recov_cls_dict float_of_digits
     (cls_fs ''# Cl-f1f1 Cl-f1f2\<newline>1 2\<newline>3 4\<newline>'') ''flask.config'' =
   Inr [(''f1f1'', Vec [1, 3]), (''f1f2'', Vec [2, 4])]
   \<and> map_of [(''f1f1'', Vec [1, 3]), (''f1f2'', Vec [2, 4])] ''f2f2'' = None
   \<and> get_recov_cls_dict float_of_digits
     (cls_fs ''# Cl-f1f1 Cl-f1f2\<newline>1 2\<newline>'') ''flask.config'' =
   Inr [(''f1f1'', Scalar 1), (''f1f2'', Scalar 2)]
   \<and> np_len (Scalar 1) = None"
  by (simp add: cls_fs_recov_two_rows cls_fs_recov_one_row np_len_def)





subsection \<open>The input dictionary\<close>


text \<open>Fields without a file do not take part in the loop.\<close>

lemma input_loop_filter:
  "input_loop conv fs pfx d0 (filter (\<lambda>k. glob fs (pfx @ k @ ''.dat'') \<noteq> []) ks) =
   input_loop conv fs pfx d0 ks"
  by (induction ks arbitrary: d0) (auto split: list.splits sum.splits)





text \<open>The keys after the loop: those before it, the fields whose file was found,
  and \<open>'l'\<close> when there is such a field.\<close>

lemma keys_step:
  assumes "P k"
  shows "insert k (insert l D) \<union> (if \<exists>x \<in> S. P x then insert l {x \<in> S. P x} else {}) =
         D \<union> (if \<exists>x \<in> insert k S. P x then insert l {x \<in> insert k S. P x} else {})"
  using assms by auto

lemma keys_skip:
  assumes "\<not> P k"
  shows "(if \<exists>x \<in> S. P x then insert l {x \<in> S. P x} else {}) =
         (if \<exists>x \<in> insert k S. P x then insert l {x \<in> insert k S. P x} else {})"
  using assms by auto

lemma input_loop_keys_exact:
  "input_loop conv fs pfx d0 ks = Inr d \<Longrightarrow>
   fst ` set d = fst ` set d0 \<union>
     (if \<exists>k \<in> set ks. glob fs (pfx @ k @ ''.dat'') \<noteq> []
      then insert ''l'' {k \<in> set ks. glob fs (pfx @ k @ ''.dat'') \<noteq> []} else {})"
proof (induction ks arbitrary: d0)
  case Nil
  then show ?case by simp
next
  case (Cons k ks)
  show ?case
  proof (cases "glob fs (pfx @ k @ ''.dat'')")
    case Nil
    with Cons.prems have "input_loop conv fs pfx d0 ks = Inr d" by simp
    note ih = Cons.IH[OF this]
    have ng: "\<not> glob fs (pfx @ k @ ''.dat'') \<noteq> []" using Nil by simp
    show ?thesis
      unfolding list.set ih
      by (subst keys_skip[of "\<lambda>k. glob fs (pfx @ k @ ''.dat'') \<noteq> []" k, OF ng]) (rule refl)
  next
    case g: (Cons f rest)
    with Cons.prems obtain ell cls where
      r: "input_loop conv fs pfx (AList.update k cls (AList.update ''l'' ell d0)) ks = Inr d"
      by (auto split: if_splits sum.splits)
    have k1: "fst ` set (AList.update k cls (AList.update ''l'' ell d0)) =
              insert k (insert ''l'' (fst ` set d0))"
      by (auto simp: AList.dom_update)
    have gk: "glob fs (pfx @ k @ ''.dat'') \<noteq> []" using g by simp
    note ih = Cons.IH[OF r, unfolded k1]
    show ?thesis
      unfolding list.set ih
      by (rule keys_step[of "\<lambda>k. glob fs (pfx @ k @ ''.dat'') \<noteq> []" k, OF gk])
  qed
qed


lemma cls_fs_input_with_l:
  "get_input_cls_dict float_of_digits
     (cls_fs ''# l Cl-f1f1\<newline>1 10\<newline>2 20\<newline>'') ''flask.config''
     [(''l'', Vec [1, 2]), (''f1f1'', Vec [10, 20])] =
   Inr [(''l'', Vec [1, 2]), (''f1f1'', Vec [5, 6])]"
  by code_simp

lemma cls_fs_prefix:
  "search_flask_args (cls_fs t) ''flask.config'' ''CL_PREFIX'' = Inr (Some ''in/Cl-'')"
  "resolve_path (get_config_path ''flask.config'') ''in/Cl-'' = Inr ''in/Cl-''"
  by (simp_all add: search_flask_args_def search_lines_def extract_arg_def cls_fs_def
      py_delete_def py_rstrip_def py_isspace_def resolve_path_def get_config_path_def
      dirname_def path_head_def path_join_def)

lemma cls_fs_glob:
  "glob (cls_fs t) ''in/Cl-f1f1.dat'' = [''in/Cl-f1f1.dat'']"
  "glob (cls_fs t) ''in/Cl-l.dat'' = []"
  "glob (cls_fs t) ''in/Cl-f2f2.dat'' = []"
  by (simp_all add: glob_def has_magic_def basename_def lexists_def isdir_def isfile_def
      cls_fs_def)





text \<open>
  Claim C8, as the code has it. A field of the recovered dictionary for which
  \<open>glob\<close> finds nothing under the resolved prefix has no effect on the call: the
  result, a dictionary or an exception, is the result for the recovered dictionary
  without such fields, so the missing file raises nothing. The keys of a dictionary
  that is returned are the fields whose file was found and, when there is such a
  field, \<open>'l'\<close>: a field other than \<open>'l'\<close> without a file is left out, and \<open>'l'\<close>
  is a key as soon as the file of any field is read, whether or not it has a file
  of its own.
\<close>

theorem get_input_cls_dict_skips_missing:
  assumes "search_flask_args fs config ''CL_PREFIX'' = Inr (Some p)"
    and "resolve_path (get_config_path config) p = Inr ClsPath"
  shows "get_input_cls_dict conv fs config RecovDict =
           get_input_cls_dict conv fs config
             (filter (\<lambda>(k, v). glob fs (ClsPath @ k @ ''.dat'') \<noteq> []) RecovDict)
       \<and> (\<forall>d. get_input_cls_dict conv fs config RecovDict = Inr d \<longrightarrow>
             fst ` set d =
               (if \<exists>k \<in> fst ` set RecovDict. glob fs (ClsPath @ k @ ''.dat'') \<noteq> []
                then insert ''l''
                       {k \<in> fst ` set RecovDict. glob fs (ClsPath @ k @ ''.dat'') \<noteq> []}
                else {}))"
proof -
  have g: "get_input_cls_dict conv fs config rd = input_loop conv fs ClsPath [] (dict_keys rd)"
    for rd
    using assms by (simp add: get_input_cls_dict_def Let_def)
  have "dict_keys (filter (\<lambda>(k, v). glob fs (ClsPath @ k @ ''.dat'') \<noteq> []) RecovDict) =
        filter (\<lambda>k. glob fs (ClsPath @ k @ ''.dat'') \<noteq> []) (dict_keys RecovDict)"
    by (induction RecovDict) (auto simp: dict_keys_def)
  then have a: "get_input_cls_dict conv fs config RecovDict =
           get_input_cls_dict conv fs config
             (filter (\<lambda>(k, v). glob fs (ClsPath @ k @ ''.dat'') \<noteq> []) RecovDict)"
    by (simp add: g input_loop_filter)
  have ks: "set (dict_keys RecovDict) = fst ` set RecovDict"
    by (simp add: dict_keys_def)
  have b: "\<forall>d. get_input_cls_dict conv fs config RecovDict = Inr d \<longrightarrow>
             fst ` set d =
               (if \<exists>k \<in> fst ` set RecovDict. glob fs (ClsPath @ k @ ''.dat'') \<noteq> []
                then insert ''l''
                       {k \<in> fst ` set RecovDict. glob fs (ClsPath @ k @ ''.dat'') \<noteq> []}
                else {})"
  proof (intro allI impI)
    fix d
    assume "get_input_cls_dict conv fs config RecovDict = Inr d"
    then have "input_loop conv fs ClsPath [] (dict_keys RecovDict) = Inr d"
      by (simp only: g)
    from input_loop_keys_exact[OF this]
    show "fst ` set d =
               (if \<exists>k \<in> fst ` set RecovDict. glob fs (ClsPath @ k @ ''.dat'') \<noteq> []
                then insert ''l''
                       {k \<in> fst ` set RecovDict. glob fs (ClsPath @ k @ ''.dat'') \<noteq> []}
                else {})"
      unfolding ks by simp
  qed
  show ?thesis
    by (intro conjI a b)
qed

theorem get_input_cls_dict_skips_missing_witness:
  "get_input_cls_dict float_of_digits (cls_fs '''') ''flask.config''
     [(''f2f2'', Vec [1, 3]), (''f1f1'', Vec [2, 4])] =
   get_input_cls_dict float_of_digits (cls_fs '''') ''flask.config'' [(''f1f1'', Vec [2, 4])]
   \<and> get_input_cls_dict float_of_digits (cls_fs '''') ''flask.config''
     [(''f2f2'', Vec [1, 3]), (''f1f1'', Vec [2, 4])] =
   Inr [(''l'', Vec [1, 2]), (''f1f1'', Vec [5, 6])]
   \<and> fst ` set [(''l'', Vec [1, 2]), (''f1f1'', Vec [5, 6])] = {''l'', ''f1f1''}"
proof -
  let ?rd = "[(''f2f2'', Vec [1, 3]), (''f1f1'', Vec [2, 4])]"
  have f: "filter (\<lambda>(k, v). glob (cls_fs '''') (''in/Cl-'' @ k @ ''.dat'') \<noteq> []) ?rd =
             [(''f1f1'', Vec [2, 4])]"
    by (simp add: glob_def has_magic_def basename_def lexists_def isdir_def isfile_def
        cls_fs_def)
  have e: "get_input_cls_dict float_of_digits (cls_fs '''') ''flask.config'' ?rd =
             Inr [(''l'', Vec [1, 2]), (''f1f1'', Vec [5, 6])]"
    by code_simp
  note th = get_input_cls_dict_skips_missing [OF cls_fs_prefix(1) [where t = "[]"]
      cls_fs_prefix(2), where conv = float_of_digits and RecovDict = ?rd]
  have a: "get_input_cls_dict float_of_digits (cls_fs '''') ''flask.config'' ?rd =
     get_input_cls_dict float_of_digits (cls_fs '''') ''flask.config'' [(''f1f1'', Vec [2, 4])]"
    using th [THEN conjunct1] unfolding f .
  have g1: "glob (cls_fs '''') (''in/Cl-'' @ ''f1f1'' @ ''.dat'') \<noteq> []"
    and g2: "glob (cls_fs '''') (''in/Cl-'' @ ''f2f2'' @ ''.dat'') = []"
    using cls_fs_glob(1) [of "[]"] cls_fs_glob(3) [of "[]"] by simp_all
  have "fst ` set [(''l'', Vec [1, 2]), (''f1f1'', Vec [5, 6])] =
          insert ''l'' {k \<in> fst ` set ?rd. glob (cls_fs '''') (''in/Cl-'' @ k @ ''.dat'') \<noteq> []}"
    using th [THEN conjunct2, rule_format, OF e] g1 by auto
  also have "{k \<in> fst ` set ?rd. glob (cls_fs '''') (''in/Cl-'' @ k @ ''.dat'') \<noteq> []} =
             {''f1f1''}"
    using g1 g2 by auto
  finally have b: "fst ` set [(''l'', Vec [1, 2]), (''f1f1'', Vec [5, 6])] = {''l'', ''f1f1''}" .
  show ?thesis
    by (intro conjI a e b)
qed

text \<open>
  Claim C8 as stated fails on the code for the field \<open>'l'\<close>. The recovered dictionary
  has the keys \<open>'l'\<close> and \<open>f1f1\<close>; no file \<open>in/Cl-l.dat\<close> exists; the input
  dictionary has the key \<open>'l'\<close> all the same, set from the file of \<open>f1f1\<close>.
\<close>

theorem get_input_cls_dict_counterexample:
  "get_input_cls_dict float_of_digits
     (cls_fs ''# l Cl-f1f1\<newline>1 10\<newline>2 20\<newline>'') ''flask.config''
     [(''l'', Vec [1, 2]), (''f1f1'', Vec [10, 20])] =
   Inr [(''l'', Vec [1, 2]), (''f1f1'', Vec [5, 6])]
   \<and> glob (cls_fs ''# l Cl-f1f1\<newline>1 10\<newline>2 20\<newline>'') ''in/Cl-l.dat'' = []
   \<and> ''l'' \<in> fst ` set [(''l'', Vec [1, 2]), (''f1f1'', Vec [10, 20])]
   \<and> ''l'' \<in> fst ` set [(''l'', Vec [1, 2]), (''f1f1'', Vec [5, 6])]"
  by (simp add: cls_fs_input_with_l cls_fs_glob)

end
